theory Spec2Isabelle
  imports Complex_Main
begin

section \<open>Python floats and errors\<close>

text \<open>
  The notebook computes with floats: \<^verbatim>\<open>best_val = float("Inf")\<close>, the losses that
  \<^verbatim>\<open>evaluate\<close> returns, \<^verbatim>\<open>math.exp\<close>. A float is a finite number, one of the two
  infinities, or NaN. Finite values are idealised as reals: rounding and underflow are
  not part of the model, comparisons and the special values are.
\<close>

datatype pyfloat = Finite real | PosInf | NegInf | NaN

datatype py_error = ZeroDivisionError | OverflowError | OtherError

text \<open>\<^verbatim>\<open>a < b\<close> on floats: false as soon as one side is NaN.\<close>

fun flt :: "pyfloat \<Rightarrow> pyfloat \<Rightarrow> bool" where
  "flt NaN b = False"
| "flt a NaN = False"
| "flt (Finite a) (Finite b) = (a < b)"
| "flt (Finite a) PosInf = True"
| "flt (Finite a) NegInf = False"
| "flt PosInf b = False"
| "flt NegInf NegInf = False"
| "flt NegInf b = True"

text \<open>\<^verbatim>\<open>a + b\<close> on floats.\<close>

fun fadd :: "pyfloat \<Rightarrow> pyfloat \<Rightarrow> pyfloat" where
  "fadd NaN b = NaN"
| "fadd a NaN = NaN"
| "fadd (Finite a) (Finite b) = Finite (a + b)"
| "fadd PosInf NegInf = NaN"
| "fadd NegInf PosInf = NaN"
| "fadd PosInf b = PosInf"
| "fadd a PosInf = PosInf"
| "fadd NegInf b = NegInf"
| "fadd a NegInf = NegInf"

text \<open>\<^verbatim>\<open>mx.nd.sum(L).asscalar()\<close>: the sum of the entries of an array.\<close>

definition fsum :: "pyfloat list \<Rightarrow> pyfloat" where
  "fsum xs = foldl fadd (Finite 0) xs"

text \<open>\<^verbatim>\<open>x / n\<close> for a float and a positive integer count.\<close>

fun fdiv :: "pyfloat \<Rightarrow> nat \<Rightarrow> pyfloat" where
  "fdiv (Finite a) n = Finite (a / real n)"
| "fdiv x n = x"

text \<open>
  \<^verbatim>\<open>math.exp(x)\<close> raises OverflowError when the result is beyond the largest double,
  that is for a finite argument above ln(DBL_MAX) = 709.782712893384 (to the last
  double below it); the infinities and NaN pass through without an error.
\<close>

definition exp_max :: real where
  "exp_max = 709782712893384 / 1000000000000"

fun math_exp :: "pyfloat \<Rightarrow> py_error + pyfloat" where
  "math_exp (Finite x) = (if exp_max < x then Inl OverflowError else Inr (Finite (exp x)))"
| "math_exp PosInf = Inr PosInf"
| "math_exp NegInf = Inr (Finite 0)"
| "math_exp NaN = Inr NaN"

section \<open>The collaborators: model and loss\<close>

text \<open>
  Arrays are flattened to lists. A batch is a pair (data, target) of token-id arrays of
  shape (bptt, batch_size): a list of rows, one row per time step. The hidden state is
  the list of the model's state arrays.
\<close>

type_synonym ndarray = "real list"
type_synonym hidden_state = "ndarray list"
type_synonym tokens = "nat list list"
type_synonym batch = "tokens \<times> tokens"

text \<open>
  The model and the loss come from the framework. They are parameters of the
  development: \<open>forward p data hidden\<close> is \<^verbatim>\<open>model(data, hidden)\<close> under the
  parameters \<open>p\<close>, \<open>loss output target\<close> is the array of per-token losses
  \<^verbatim>\<open>loss(output.reshape(-3, -1), target.reshape(-1))\<close>, \<open>state_info\<close> gives the
  shapes of the state arrays for a batch size.

  \<^verbatim>\<open>train_one_epoch\<close> is imported from the module \<^verbatim>\<open>utilities\<close>. For
  \<^verbatim>\<open>train\<close> it is a parameter as well:
  \<open>train_one_epoch epoch p train_data batch_size grad_clip log_interval trainer_lr\<close>
  is the call \<^verbatim>\<open>train_one_epoch(epoch, model, train_data, batch_size, grad_clip,
  log_interval, loss, parameters, trainer, context)\<close>; it returns the updated
  parameters of the model, or the exception it raised.
\<close>

record ('p, 'o) collab =
  state_info :: "nat \<Rightarrow> nat list list"
  forward :: "'p \<Rightarrow> tokens \<Rightarrow> hidden_state \<Rightarrow> 'o \<times> hidden_state"
  loss :: "'o \<Rightarrow> nat list \<Rightarrow> pyfloat list"
  train_one_epoch :: "nat \<Rightarrow> 'p \<Rightarrow> batch list \<Rightarrow> nat \<Rightarrow> real \<Rightarrow> nat \<Rightarrow> real \<Rightarrow> py_error + 'p"

text \<open>\<^verbatim>\<open>mx.nd.zeros\<close>: the array of the given shape filled with zeros.\<close>

definition zeros :: "nat list \<Rightarrow> ndarray" where
  "zeros shape = replicate (prod_list shape) 0"

text \<open>
  Modelled from the spec: \<^verbatim>\<open>model.begin_state(batch_size, func, ctx)\<close> is a method of
  the framework's model, not of the notebook. The spec has it produce the initial hidden
  state for a batch size, all zero under \<^verbatim>\<open>func=mx.nd.zeros\<close>: one array per state
  shape, each made by \<open>func\<close>.
\<close>

definition begin_state :: "('p, 'o) collab \<Rightarrow> nat \<Rightarrow> (nat list \<Rightarrow> ndarray) \<Rightarrow> hidden_state" where
  "begin_state c batch_size func = map func (state_info c batch_size)"

section \<open>evaluate\<close>

text \<open>
  \<^verbatim>\<open>
  def evaluate(model, data_source, batch_size, ctx):
      total_L = 0.0
      ntotal = 0
      hidden = model.begin_state(batch_size=batch_size, func=mx.nd.zeros, ctx=ctx)
      for i, (data, target) in enumerate(data_source):
          data = data.as_in_context(ctx)
          target = target.as_in_context(ctx)
          output, hidden = model(data, hidden)
          L = loss(output.reshape(-3, -1), target.reshape(-1))
          total_L += mx.nd.sum(L).asscalar()
          ntotal += L.size
      return total_L / ntotal
  \<close>
  The three local variables are the loop state. With no batch, \<^verbatim>\<open>total_L / ntotal\<close>
  is \<^verbatim>\<open>0.0 / 0\<close> and raises ZeroDivisionError. (An array of the framework has at least
  one entry, so \<open>ntotal\<close> is zero only when no batch was processed.)
\<close>

record eval_state =
  total_L :: pyfloat
  ntotal :: nat
  hidden :: hidden_state

definition evaluate_init :: "('p, 'o) collab \<Rightarrow> nat \<Rightarrow> eval_state" where
  "evaluate_init c batch_size =
     \<lparr>total_L = Finite 0, ntotal = 0, hidden = begin_state c batch_size zeros\<rparr>"

definition evaluate_batch :: "('p, 'o) collab \<Rightarrow> 'p \<Rightarrow> eval_state \<Rightarrow> batch \<Rightarrow> eval_state" where
  "evaluate_batch c p s b =
     (case b of (data, target) \<Rightarrow>
        (case forward c p data (hidden s) of (output, hidden') \<Rightarrow>
           (let L = loss c output (concat target)
            in \<lparr>total_L = fadd (total_L s) (fsum L),
                ntotal = ntotal s + length L,
                hidden = hidden'\<rparr>)))"

fun evaluate_loop :: "('p, 'o) collab \<Rightarrow> 'p \<Rightarrow> eval_state \<Rightarrow> batch list \<Rightarrow> eval_state" where
  "evaluate_loop c p s [] = s"
| "evaluate_loop c p s (b # bs) = evaluate_loop c p (evaluate_batch c p s b) bs"

definition evaluate :: "('p, 'o) collab \<Rightarrow> 'p \<Rightarrow> batch list \<Rightarrow> nat \<Rightarrow> py_error + pyfloat" where
  "evaluate c p data_source batch_size =
     (let s = evaluate_loop c p (evaluate_init c batch_size) data_source
      in if ntotal s = 0 then Inl ZeroDivisionError
         else Inr (fdiv (total_L s) (ntotal s)))"

text \<open>
  What the spec says \<^verbatim>\<open>evaluate\<close> returns, written without the loop: the arrays of
  per-token losses of the batches, each computed from the hidden state the batches
  before it left, and the average over all their entries.
\<close>

fun batch_losses :: "('p, 'o) collab \<Rightarrow> 'p \<Rightarrow> hidden_state \<Rightarrow> batch list \<Rightarrow> pyfloat list list" where
  "batch_losses c p h [] = []"
| "batch_losses c p h (b # bs) =
     loss c (fst (forward c p (fst b) h)) (concat (snd b))
       # batch_losses c p (snd (forward c p (fst b) h)) bs"


section \<open>The batchifier\<close>

text \<open>
  Modelled from the spec: the batchifier
  \<^verbatim>\<open>nlp.data.batchify.CorpusBPTTBatchify(vocab, bptt, batch_size, last_batch='discard')\<close>
  belongs to the framework; the notebook only calls it. The spec describes a batch as
  "a fixed-shape rectangular window of (input tokens, target tokens) drawn by sliding a
  truncation window of length bptt over the corpus, replicated across batch_size
  parallel streams; the target batch is the input batch shifted by one token. Batches
  are produced in a fixed, deterministic order per segment; any remainder that doesn't
  fill a full window is discarded."

  So the corpus is cut into \<open>batch_size\<close> streams of the same length, the tokens
  left over dropped; row \<open>t\<close> holds token \<open>t\<close> of every stream. Window \<open>i\<close> takes
  the rows from \<open>i * bptt\<close> on as its input and the rows one step later as its target,
  and a window is kept when both have all their \<open>bptt\<close> rows.
\<close>

definition corpus_rows :: "nat \<Rightarrow> nat list \<Rightarrow> tokens" where
  "corpus_rows batch_size corpus =
     (let n = length corpus div batch_size
      in map (\<lambda>t. map (\<lambda>j. corpus ! (j * n + t)) [0..<batch_size]) [0..<n])"

definition bptt_window :: "nat \<Rightarrow> tokens \<Rightarrow> nat \<Rightarrow> batch" where
  "bptt_window bptt rows i =
     (take bptt (drop (i * bptt) rows), take bptt (drop (i * bptt + 1) rows))"

definition full_window :: "nat \<Rightarrow> batch \<Rightarrow> bool" where
  "full_window bptt b = (length (fst b) = bptt \<and> length (snd b) = bptt)"

definition bptt_batchify :: "nat \<Rightarrow> nat \<Rightarrow> nat list \<Rightarrow> batch list" where
  "bptt_batchify bptt batch_size corpus =
     (let rows = corpus_rows batch_size corpus
      in filter (full_window bptt) (map (bptt_window bptt rows) [0..<length rows]))"

section \<open>train\<close>

text \<open>
  \<^verbatim>\<open>
  def train(model, train_data, val_data, test_data, batch_size, grad_clip,
            log_interval, loss, epochs, lr):
      best_val = float("Inf")
      start_train_time = time.time()
      parameters = model.collect_params().values()
      for epoch in range(epochs):
          start_epoch_time = time.time()
          train_one_epoch(epoch, model, train_data, batch_size, grad_clip,
                          log_interval, loss, parameters, trainer, context)
          mx.nd.waitall()
          val_L = evaluate(model, val_data, batch_size, context[0])
          print('[Epoch %d] time cost %.2fs, valid loss %.2f, valid ppl %.2f'%(
              epoch, time.time()-start_epoch_time, val_L, math.exp(val_L)))
          if val_L < best_val:
              best_val = val_L
              test_L = evaluate(model, test_data, batch_size, context[0])
              print('test loss %.2f, test ppl %.2f'%(test_L, math.exp(test_L)))
          else:
              lr = lr*0.25
              trainer.set_learning_rate(lr)
  \<close>
  The state of the loop: the parameters of the model (which \<^verbatim>\<open>train_one_epoch\<close>
  updates in place), the learning rate of the global \<^verbatim>\<open>trainer\<close>, the local
  \<^verbatim>\<open>lr\<close> and \<^verbatim>\<open>best_val\<close>, the actions taken so far, in order, and the
  exception that ended the run, if one did. An exception of \<^verbatim>\<open>train_one_epoch\<close>,
  of \<^verbatim>\<open>evaluate\<close> or of \<^verbatim>\<open>math.exp\<close> in a log line is not caught: the run
  ends there. Wall-clock times, and with them the closing throughput line, are left out.
\<close>

datatype segment = Val | Test

datatype line = EpochLine nat pyfloat pyfloat | TestLine pyfloat pyfloat

datatype event =
  TrainedEpoch nat real
  | Evaluated segment
  | Printed line
  | SetLearningRate real

record 'p train_state =
  params :: 'p
  trainer_lr :: real
  lr :: real
  best_val :: pyfloat
  events :: "event list"
  raised :: "py_error option"

record args =
  train_data :: "batch list"
  val_data :: "batch list"
  test_data :: "batch list"
  batch_size :: nat
  grad_clip :: real
  log_interval :: nat

definition emit :: "event \<Rightarrow> 'p train_state \<Rightarrow> 'p train_state" where
  "emit e s = s\<lparr>events := events s @ [e]\<rparr>"

definition raise :: "py_error \<Rightarrow> 'p train_state \<Rightarrow> 'p train_state" where
  "raise e s = s\<lparr>raised := Some e\<rparr>"

text \<open>The two lines of the \<^verbatim>\<open>if\<close> branch after \<^verbatim>\<open>best_val = val_L\<close>.\<close>

definition report_test :: "('p, 'o) collab \<Rightarrow> args \<Rightarrow> 'p train_state \<Rightarrow> 'p train_state" where
  "report_test c a s =
     (case evaluate c (params s) (test_data a) (batch_size a) of
        Inl e \<Rightarrow> raise e (emit (Evaluated Test) s)
      | Inr test_L \<Rightarrow>
          (case math_exp test_L of
             Inl e \<Rightarrow> raise e (emit (Evaluated Test) s)
           | Inr ppl \<Rightarrow> emit (Printed (TestLine test_L ppl)) (emit (Evaluated Test) s)))"

text \<open>The \<^verbatim>\<open>else\<close> branch.\<close>

definition decay :: "'p train_state \<Rightarrow> 'p train_state" where
  "decay s =
     (let lr' = lr s * 0.25
      in emit (SetLearningRate lr') (s\<lparr>lr := lr', trainer_lr := lr'\<rparr>))"

text \<open>The body of the \<^verbatim>\<open>for\<close> loop.\<close>

definition train_epoch :: "('p, 'o) collab \<Rightarrow> args \<Rightarrow> nat \<Rightarrow> 'p train_state \<Rightarrow> 'p train_state" where
  "train_epoch c a epoch s =
     (case train_one_epoch c epoch (params s) (train_data a) (batch_size a) (grad_clip a)
             (log_interval a) (trainer_lr s) of
        Inl e \<Rightarrow> raise e s
      | Inr p' \<Rightarrow>
          (let s1 = emit (TrainedEpoch epoch (trainer_lr s)) (s\<lparr>params := p'\<rparr>)
           in case evaluate c p' (val_data a) (batch_size a) of
                Inl e \<Rightarrow> raise e (emit (Evaluated Val) s1)
              | Inr val_L \<Rightarrow>
                  (case math_exp val_L of
                     Inl e \<Rightarrow> raise e (emit (Evaluated Val) s1)
                   | Inr ppl \<Rightarrow>
                       (let s2 = emit (Printed (EpochLine epoch val_L ppl)) (emit (Evaluated Val) s1)
                        in if flt val_L (best_val s2)
                           then report_test c a (s2\<lparr>best_val := val_L\<rparr>)
                           else decay s2))))"

fun train_loop :: "('p, 'o) collab \<Rightarrow> args \<Rightarrow> nat list \<Rightarrow> 'p train_state \<Rightarrow> 'p train_state" where
  "train_loop c a [] s = s"
| "train_loop c a (epoch # rest) s =
     (let s' = train_epoch c a epoch s
      in if raised s' = None then train_loop c a rest s' else s')"

text \<open>
  The state on entry of \<^verbatim>\<open>train\<close>. The trainer is a global of the notebook, so its
  learning rate on entry is an input of its own, beside the argument \<^verbatim>\<open>lr\<close>.
\<close>

definition train_init :: "'p \<Rightarrow> real \<Rightarrow> real \<Rightarrow> 'p train_state" where
  "train_init p trainer_lr0 lr0 =
     \<lparr>params = p, trainer_lr = trainer_lr0, lr = lr0, best_val = PosInf,
      events = [], raised = None\<rparr>"

text \<open>\<^verbatim>\<open>range(epochs)\<close> is empty for a negative \<^verbatim>\<open>epochs\<close>.\<close>

definition train :: "('p, 'o) collab \<Rightarrow> args \<Rightarrow> 'p \<Rightarrow> real \<Rightarrow> int \<Rightarrow> real \<Rightarrow> 'p train_state" where
  "train c a p trainer_lr0 epochs lr0 =
     train_loop c a [0..<nat epochs] (train_init p trainer_lr0 lr0)"

text \<open>
  The notebook's own run: \<^verbatim>\<open>lr = 20\<close>, \<^verbatim>\<open>epochs = 3\<close>, \<^verbatim>\<open>batch_size = 64\<close>
  (one device), \<^verbatim>\<open>bptt = 35\<close>, \<^verbatim>\<open>grad_clip = 0.25\<close>, \<^verbatim>\<open>log_interval = 200\<close>; the
  trainer is created with \<^verbatim>\<open>'learning_rate': lr\<close> and \<^verbatim>\<open>train\<close> is called with
  the same \<^verbatim>\<open>lr\<close>.
\<close>

definition notebook :: "('p, 'o) collab \<Rightarrow> 'p \<Rightarrow> batch list \<Rightarrow> batch list \<Rightarrow> batch list \<Rightarrow> 'p train_state" where
  "notebook c p train_batches val_batches test_batches =
     train c \<lparr>train_data = train_batches, val_data = val_batches, test_data = test_batches,
              batch_size = 64, grad_clip = 0.25, log_interval = 200\<rparr> p 20 3 20"

text \<open>
  The states at the epoch boundaries of a run: the state on entry, then the state after
  each epoch that ran to its end. The validation loss of an epoch is what
  \<^verbatim>\<open>evaluate\<close> returns on the validation segment after \<^verbatim>\<open>train_one_epoch\<close>.
\<close>

fun boundaries :: "('p, 'o) collab \<Rightarrow> args \<Rightarrow> nat list \<Rightarrow> 'p train_state \<Rightarrow> 'p train_state list" where
  "boundaries c a [] s = [s]"
| "boundaries c a (epoch # rest) s =
     s # (let s' = train_epoch c a epoch s
          in if raised s' = None then boundaries c a rest s' else [])"

definition epoch_val_loss :: "('p, 'o) collab \<Rightarrow> args \<Rightarrow> nat \<Rightarrow> 'p train_state \<Rightarrow> py_error + pyfloat" where
  "epoch_val_loss c a epoch s =
     (case train_one_epoch c epoch (params s) (train_data a) (batch_size a) (grad_clip a)
             (log_interval a) (trainer_lr s) of
        Inl e \<Rightarrow> Inl e
      | Inr p' \<Rightarrow> evaluate c p' (val_data a) (batch_size a))"

text \<open>The actions an epoch added to the log.\<close>

definition new_events :: "'p train_state \<Rightarrow> 'p train_state \<Rightarrow> event list" where
  "new_events s s' = drop (length (events s)) (events s')"

section \<open>One epoch of training\<close>

text \<open>
  Modelled from the spec: \<^verbatim>\<open>train_one_epoch\<close> and \<^verbatim>\<open>detach\<close> are imported from
  the module \<^verbatim>\<open>utilities\<close>, which is not among the sources. The spec gives the epoch
  as: reset the hidden state to its initial (zero) value for the batch size in use; then,
  for each training batch in corpus order, detach the hidden state from any prior
  computation history before it is fed to the model, compute the model output and the
  loss, compute the gradients, clip their aggregate norm to at most \<^verbatim>\<open>grad_clip\<close>,
  and apply one step of stochastic gradient descent at the current learning rate. (The
  rolling loss and the log lines are output only and are left out.)

  To say what detaching does, a hidden state carries its computation history beside its
  arrays: the batches whose recorded forward passes it came from. The forward pass on
  batch \<open>i\<close> gives a state whose history is \<open>i\<close> in front of the history of the state it
  was fed, and the backward pass of that batch goes through exactly this history.
  Gradients, clipping and the update are parameters. The state of the loop keeps, beside
  the parameters and the hidden state, a record of the states fed to the model and of
  the histories the backward passes went through.
\<close>

record tracked =
  arrays :: hidden_state
  history :: "nat list"

definition detach :: "tracked \<Rightarrow> tracked" where
  "detach h = h\<lparr>history := []\<rparr>"

record ('p, 'g) autodiff =
  backward :: "'p \<Rightarrow> batch \<Rightarrow> hidden_state \<Rightarrow> nat list \<Rightarrow> 'g"
  clip_global_norm :: "'g \<Rightarrow> real \<Rightarrow> 'g"
  sgd_step :: "'p \<Rightarrow> 'g \<Rightarrow> real \<Rightarrow> 'p"

record 'p epoch_state =
  weights :: 'p
  carried :: tracked
  fed :: "tracked list"
  scopes :: "nat list list"

definition epoch_init :: "('p, 'o) collab \<Rightarrow> nat \<Rightarrow> 'p \<Rightarrow> 'p epoch_state" where
  "epoch_init c n p =
     \<lparr>weights = p, carried = \<lparr>arrays = begin_state c n zeros, history = []\<rparr>,
      fed = [], scopes = []\<rparr>"

definition train_batch :: "('p, 'o) collab \<Rightarrow> ('p, 'g) autodiff \<Rightarrow> real \<Rightarrow> real \<Rightarrow>
    'p epoch_state \<Rightarrow> nat \<times> batch \<Rightarrow> 'p epoch_state" where
  "train_batch c ad clip rate s ib =
     (case ib of (i, b) \<Rightarrow>
        (let h = detach (carried s);
             h' = \<lparr>arrays = snd (forward c (weights s) (fst b) (arrays h)),
                   history = i # history h\<rparr>;
             g = clip_global_norm ad (backward ad (weights s) b (arrays h) (history h')) clip
         in \<lparr>weights = sgd_step ad (weights s) g rate, carried = h',
             fed = fed s @ [h], scopes = scopes s @ [history h']\<rparr>))"

fun epoch_loop :: "('p, 'o) collab \<Rightarrow> ('p, 'g) autodiff \<Rightarrow> real \<Rightarrow> real \<Rightarrow>
    'p epoch_state \<Rightarrow> (nat \<times> batch) list \<Rightarrow> 'p epoch_state" where
  "epoch_loop c ad clip rate s [] = s"
| "epoch_loop c ad clip rate s (ib # rest) =
     epoch_loop c ad clip rate (train_batch c ad clip rate s ib) rest"

definition run_epoch :: "('p, 'o) collab \<Rightarrow> ('p, 'g) autodiff \<Rightarrow> 'p \<Rightarrow> batch list \<Rightarrow> nat \<Rightarrow>
    real \<Rightarrow> real \<Rightarrow> 'p epoch_state" where
  "run_epoch c ad p batches n clip rate =
     epoch_loop c ad clip rate (epoch_init c n p) (enumerate 0 batches)"

definition train_one_epoch_spec :: "('p, 'o) collab \<Rightarrow> ('p, 'g) autodiff \<Rightarrow> nat \<Rightarrow> 'p \<Rightarrow>
    batch list \<Rightarrow> nat \<Rightarrow> real \<Rightarrow> nat \<Rightarrow> real \<Rightarrow> py_error + 'p" where
  "train_one_epoch_spec c ad epoch p batches n clip interval rate =
     Inr (weights (run_epoch c ad p batches n clip rate))"

section \<open>A small model for running the definitions\<close>

text \<open>
  The parameters of this model are the losses it will have after each further epoch of
  training: its loss on every token is the head of the list, and an epoch of training
  drops the head.
\<close>

definition toy :: "(pyfloat list, pyfloat) collab" where
  "toy = \<lparr>state_info = (\<lambda>n. [[1, n, 2], [1, n, 2]]),
          forward = (\<lambda>p data h. (case p of [] \<Rightarrow> NaN | x # xs \<Rightarrow> x, map (map (\<lambda>x. x + 1)) h)),
          loss = (\<lambda>out target. map (\<lambda>t. out) target),
          train_one_epoch = (\<lambda>epoch p td n clip interval rate. Inr (tl p))\<rparr>"


definition toy_autodiff :: "(pyfloat list, nat) autodiff" where
  "toy_autodiff = \<lparr>backward = (\<lambda>p b h scope. length scope),
                   clip_global_norm = (\<lambda>g clip. g),
                   sgd_step = (\<lambda>p g rate. tl p)\<rparr>"

definition toy_args :: args where
  "toy_args = \<lparr>train_data = [], val_data = [([[1]], [[2]])], test_data = [([[3]], [[4]])],
               batch_size = 1, grad_clip = 0.25, log_interval = 200\<rparr>"

text \<open>Unfolding the definitions on the small model.\<close>

lemma upt_3: "[0..<3] = [0, 1, 2]"
  by code_simp

lemmas toy_simps = upt_3 toy_def toy_args_def train_init_def train_epoch_def report_test_def decay_def
  emit_def raise_def evaluate_def evaluate_init_def evaluate_batch_def begin_state_def zeros_def
  fsum_def exp_max_def epoch_val_loss_def new_events_def Let_def

section \<open>Float arithmetic\<close>






lemma flt_irrefl: "\<not> flt a a"
  by (cases a) simp_all

lemma flt_trans: "flt a b \<Longrightarrow> flt b c \<Longrightarrow> flt a c"
  by (cases a; cases b; cases c) simp_all

section \<open>Properties of evaluate\<close>

lemma evaluate_loop_ntotal:
  "ntotal (evaluate_loop c p s ds) = ntotal s + length (concat (batch_losses c p (hidden s) ds))"
  by (induction ds arbitrary: s) (simp_all add: evaluate_batch_def Let_def split: prod.splits)




text \<open>
  Claim C10. On a segment with no batch the token count stays zero and the closing
  division raises ZeroDivisionError; \<^verbatim>\<open>evaluate\<close> returns a loss only on a segment
  that has a batch.
\<close>

theorem evaluate_empty_raises:
  "ntotal (evaluate_loop c p (evaluate_init c n) []) = 0 \<and>
   evaluate c p [] n = Inl ZeroDivisionError \<and>
   (\<forall>v. evaluate c p data_source n = Inr v \<longrightarrow> data_source \<noteq> [])"
proof -
  have 1: "ntotal (evaluate_loop c p (evaluate_init c n) []) = 0"
    by (simp add: evaluate_init_def)
  then have 2: "evaluate c p [] n = Inl ZeroDivisionError"
    by (simp add: evaluate_def)
  from 1 2 show ?thesis by auto
qed

theorem evaluate_empty_raises_witness:
  "evaluate toy [Finite 3] [([[1, 2]], [[2, 3]])] 2 = Inr (Finite 3) \<and>
   [([[1, 2]], [[2, 3::nat]])] \<noteq> ([] :: batch list) \<and>
   evaluate toy [Finite 3] [] 2 = Inl ZeroDivisionError"
  using evaluate_empty_raises [of toy "[Finite 3]" 2 "[([[1, 2]], [[2, 3]])]"]
  by (simp add: toy_simps)

section \<open>Properties of train\<close>

lemma raised_emit [simp]: "raised (emit e s) = raised s"
  by (simp add: emit_def)

lemma raised_raise [simp]: "raised (raise e s) = Some e"
  by (simp add: raise_def)

lemma train_epoch_improved:
  assumes "train_one_epoch c e (params s) (train_data a) (batch_size a) (grad_clip a)
             (log_interval a) (trainer_lr s) = Inr p'"
    and "evaluate c p' (val_data a) (batch_size a) = Inr v"
    and "math_exp v = Inr ppl"
    and "flt v (best_val s)"
  shows "train_epoch c a e s =
           report_test c a (s\<lparr>params := p',
             events := events s @ [TrainedEpoch e (trainer_lr s), Evaluated Val,
                                   Printed (EpochLine e v ppl)], best_val := v\<rparr>)"
  using assms by (simp add: train_epoch_def emit_def Let_def)

lemma train_epoch_not_improved:
  assumes "train_one_epoch c e (params s) (train_data a) (batch_size a) (grad_clip a)
             (log_interval a) (trainer_lr s) = Inr p'"
    and "evaluate c p' (val_data a) (batch_size a) = Inr v"
    and "math_exp v = Inr ppl"
    and "\<not> flt v (best_val s)"
  shows "train_epoch c a e s =
           s\<lparr>params := p', lr := lr s * 0.25, trainer_lr := lr s * 0.25,
             events := events s @ [TrainedEpoch e (trainer_lr s), Evaluated Val,
                                   Printed (EpochLine e v ppl), SetLearningRate (lr s * 0.25)]\<rparr>"
  using assms by (simp add: train_epoch_def emit_def decay_def Let_def)

lemma train_epoch_reaches_branch:
  assumes "raised (train_epoch c a e s) = None"
  shows "\<exists>p' v ppl. train_one_epoch c e (params s) (train_data a) (batch_size a) (grad_clip a)
             (log_interval a) (trainer_lr s) = Inr p' \<and> evaluate c p' (val_data a) (batch_size a) = Inr v
          \<and> math_exp v = Inr ppl"
  using assms by (auto simp: train_epoch_def Let_def split: sum.splits)

lemma report_test_completed:
  assumes "raised (report_test c a s) = None"
  shows "\<exists>t tp. evaluate c (params s) (test_data a) (batch_size a) = Inr t \<and> math_exp t = Inr tp \<and>
     report_test c a s = s\<lparr>events := events s @ [Evaluated Test, Printed (TestLine t tp)]\<rparr>"
  using assms by (auto simp: report_test_def emit_def split: sum.splits)

lemma boundaries_step:
  "Suc i < length (boundaries c a es s) \<Longrightarrow>
     i < length es \<and>
     boundaries c a es s ! Suc i = train_epoch c a (es ! i) (boundaries c a es s ! i) \<and>
     raised (boundaries c a es s ! Suc i) = None"
proof (induction es arbitrary: s i)
  case Nil
  then show ?case by simp
next
  case (Cons e es)
  let ?s' = "train_epoch c a e s"
  from Cons.prems have ok: "raised ?s' = None"
    by (auto simp: Let_def split: if_splits)
  then have B: "boundaries c a (e # es) s = s # boundaries c a es ?s'"
    by (simp add: Let_def)
  have hd: "boundaries c a es ?s' ! 0 = ?s'"
    by (cases es) simp_all
  show ?case
  proof (cases i)
    case 0
    then show ?thesis using ok B hd by simp
  next
    case (Suc j)
    with Cons.prems B have "Suc j < length (boundaries c a es ?s')" by simp
    from Cons.IH [OF this]
    have 1: "j < length es"
      and 2: "boundaries c a es ?s' ! Suc j = train_epoch c a (es ! j) (boundaries c a es ?s' ! j)"
      and 3: "raised (boundaries c a es ?s' ! Suc j) = None"
      by blast+
    show ?thesis unfolding B Suc using 1 2 3 by (simp del: boundaries.simps)
  qed
qed


lemma report_test_fields [simp]:
  "best_val (report_test c a s) = best_val s"
  "lr (report_test c a s) = lr s"
  "trainer_lr (report_test c a s) = trainer_lr s"
  "params (report_test c a s) = params s"
  by (simp_all add: report_test_def emit_def raise_def split: sum.splits)




text \<open>What an epoch that ran to its end did.\<close>

lemma train_epoch_completed:
  assumes "raised (train_epoch c a e s) = None"
  shows "\<exists>v ppl. epoch_val_loss c a e s = Inr v \<and> math_exp v = Inr ppl \<and>
          (if flt v (best_val s)
           then best_val (train_epoch c a e s) = v \<and>
                lr (train_epoch c a e s) = lr s \<and>
                trainer_lr (train_epoch c a e s) = trainer_lr s \<and>
                (\<exists>t tp. evaluate c (params (train_epoch c a e s)) (test_data a) (batch_size a) = Inr t \<and>
                   math_exp t = Inr tp \<and>
                   new_events s (train_epoch c a e s) =
                     [TrainedEpoch e (trainer_lr s), Evaluated Val, Printed (EpochLine e v ppl),
                      Evaluated Test, Printed (TestLine t tp)])
           else best_val (train_epoch c a e s) = best_val s \<and>
                lr (train_epoch c a e s) = lr s * 0.25 \<and>
                trainer_lr (train_epoch c a e s) = lr s * 0.25 \<and>
                new_events s (train_epoch c a e s) =
                  [TrainedEpoch e (trainer_lr s), Evaluated Val, Printed (EpochLine e v ppl),
                   SetLearningRate (lr s * 0.25)])"
proof -
  from train_epoch_reaches_branch [OF assms]
  obtain p' v ppl where
    t: "train_one_epoch c e (params s) (train_data a) (batch_size a) (grad_clip a)
             (log_interval a) (trainer_lr s) = Inr p'"
    and v: "evaluate c p' (val_data a) (batch_size a) = Inr v"
    and x: "math_exp v = Inr ppl"
    by blast
  have ev: "epoch_val_loss c a e s = Inr v"
    by (simp add: epoch_val_loss_def t v)
  show ?thesis
  proof (cases "flt v (best_val s)")
    case True
    let ?s2 = "s\<lparr>params := p',
             events := events s @ [TrainedEpoch e (trainer_lr s), Evaluated Val,
                                   Printed (EpochLine e v ppl)], best_val := v\<rparr>"
    have eq: "train_epoch c a e s = report_test c a ?s2"
      by (rule train_epoch_improved [OF t v x True])
    with assms have "raised (report_test c a ?s2) = None" by simp
    from report_test_completed [OF this]
    obtain t' tp where t': "evaluate c (params ?s2) (test_data a) (batch_size a) = Inr t'"
      and tp: "math_exp t' = Inr tp"
      and r: "report_test c a ?s2 = ?s2\<lparr>events := events ?s2 @ [Evaluated Test, Printed (TestLine t' tp)]\<rparr>"
      by blast
    have "new_events s (train_epoch c a e s) =
            [TrainedEpoch e (trainer_lr s), Evaluated Val, Printed (EpochLine e v ppl),
             Evaluated Test, Printed (TestLine t' tp)]"
      unfolding eq r by (simp add: new_events_def)
    moreover have "evaluate c (params (train_epoch c a e s)) (test_data a) (batch_size a) = Inr t'"
      unfolding eq using t' by simp
    ultimately show ?thesis
      using True ev x tp unfolding eq by auto
  next
    case False
    show ?thesis
      using False ev x unfolding train_epoch_not_improved [OF t v x False]
      by (simp add: new_events_def)
  qed
qed


lemma boundaries_0: "boundaries c a es s ! 0 = s"
  by (cases es) simp_all

lemma boundaries_lr:
  "trainer_lr s = lr s \<Longrightarrow> i < length (boundaries c a es s) \<Longrightarrow>
     trainer_lr (boundaries c a es s ! i) = lr (boundaries c a es s ! i)"
proof (induction i)
  case 0
  then show ?case by (simp add: boundaries_0)
next
  case (Suc i)
  let ?B = "boundaries c a es s"
  from boundaries_step [OF Suc.prems(2)]
  have st: "?B ! Suc i = train_epoch c a (es ! i) (?B ! i)" and ok: "raised (?B ! Suc i) = None"
    by blast+
  from ok have "raised (train_epoch c a (es ! i) (?B ! i)) = None" by (simp only: st)
  moreover have "trainer_lr (?B ! i) = lr (?B ! i)"
    using Suc by simp
  ultimately show ?case
    using train_epoch_completed [of c a "es ! i" "?B ! i"]
    unfolding st by (auto split: if_splits)
qed

lemma notebook_run:
  "notebook c p train_batches val_batches test_batches =
     train_loop c \<lparr>train_data = train_batches, val_data = val_batches, test_data = test_batches,
                    batch_size = 64, grad_clip = 0.25, log_interval = 200\<rparr>
       [0, 1, 2] (train_init p 20 20)"
  by (simp add: notebook_def train_def upt_3)

text \<open>A run that raised nothing has a boundary after each of its epochs, the last its result.\<close>

lemma boundaries_completed:
  "raised (train_loop c a es s) = None \<Longrightarrow>
     length (boundaries c a es s) = Suc (length es) \<and>
     last (boundaries c a es s) = train_loop c a es s"
proof (induction es arbitrary: s)
  case Nil
  show ?case by simp
next
  case (Cons e es)
  show ?case
  proof (cases "raised (train_epoch c a e s) = None")
    case True
    have ne: "boundaries c a es (train_epoch c a e s) \<noteq> []"
      by (cases es) simp_all
    from Cons.prems True have "raised (train_loop c a es (train_epoch c a e s)) = None"
      by (simp add: Let_def)
    from Cons.IH [OF this] show ?thesis
      using True ne by (simp add: Let_def)
  next
    case False
    with Cons.prems show ?thesis by (simp add: Let_def)
  qed
qed

text \<open>
  Claim C1. At every epoch boundary of a run of \<^verbatim>\<open>train\<close> whose trainer starts at
  the learning rate \<^verbatim>\<open>lr\<close> (as in the notebook), the learning rate of the trainer
  after the epoch is the one before it when the validation loss of the epoch is strictly
  less than the best so far, and otherwise exactly 0.25 times the one before; a
  validation loss equal to the best is in the second case.
\<close>

theorem learning_rate_schedule:
  assumes "Suc i < length (boundaries c a [0..<nat epochs] (train_init p lr0 lr0))"
  shows "let B = boundaries c a [0..<nat epochs] (train_init p lr0 lr0) in
           \<exists>v. epoch_val_loss c a i (B ! i) = Inr v \<and>
             (flt v (best_val (B ! i)) \<longrightarrow> trainer_lr (B ! Suc i) = trainer_lr (B ! i)) \<and>
             (\<not> flt v (best_val (B ! i)) \<longrightarrow> trainer_lr (B ! Suc i) = 0.25 * trainer_lr (B ! i)) \<and>
             (v = best_val (B ! i) \<longrightarrow> trainer_lr (B ! Suc i) = 0.25 * trainer_lr (B ! i))"
proof -
  let ?B = "boundaries c a [0..<nat epochs] (train_init p lr0 lr0)"
  from boundaries_step [OF assms]
  have i: "i < length [0..<nat epochs]"
    and st: "?B ! Suc i = train_epoch c a ([0..<nat epochs] ! i) (?B ! i)"
    and ok: "raised (?B ! Suc i) = None"
    by blast+
  from i have e: "[0..<nat epochs] ! i = i" by simp
  have inv: "trainer_lr (?B ! i) = lr (?B ! i)"
    using assms by (intro boundaries_lr) (simp_all add: train_init_def)
  from ok have "raised (train_epoch c a i (?B ! i)) = None"
    using st e by simp
  from train_epoch_completed [OF this]
  obtain v where v: "epoch_val_loss c a i (?B ! i) = Inr v"
    and up: "flt v (best_val (?B ! i)) \<Longrightarrow> trainer_lr (?B ! Suc i) = trainer_lr (?B ! i)"
    and down: "\<not> flt v (best_val (?B ! i)) \<Longrightarrow> trainer_lr (?B ! Suc i) = lr (?B ! i) * 0.25"
    unfolding st e by (auto split: if_splits)
  have "v = best_val (?B ! i) \<Longrightarrow> \<not> flt v (best_val (?B ! i))"
    by (simp add: flt_irrefl)
  with v up down inv show ?thesis
    unfolding Let_def by (intro exI [of _ v]) auto
qed

theorem learning_rate_schedule_witness:
  "epoch_val_loss toy toy_args 1
      (boundaries toy toy_args [0..<nat 3]
         (train_init [NaN, Finite 5.9, Finite 5.9, Finite 5.2] 20 20) ! 1) = Inr (Finite 5.9) \<and>
   best_val (boundaries toy toy_args [0..<nat 3]
         (train_init [NaN, Finite 5.9, Finite 5.9, Finite 5.2] 20 20) ! 1) = Finite 5.9 \<and>
   trainer_lr (boundaries toy toy_args [0..<nat 3]
         (train_init [NaN, Finite 5.9, Finite 5.9, Finite 5.2] 20 20) ! 1) = 20 \<and>
   trainer_lr (boundaries toy toy_args [0..<nat 3]
         (train_init [NaN, Finite 5.9, Finite 5.9, Finite 5.2] 20 20) ! Suc 1) = 5"
proof -
  have h: "Suc 1 < length (boundaries toy toy_args [0..<nat 3]
         (train_init [NaN, Finite 5.9, Finite 5.9, Finite 5.2] 20 20))"
    by (simp add: toy_simps)
  from learning_rate_schedule [OF h] show ?thesis
    by (simp add: toy_simps)
qed

lemma train_epoch_best:
  "best_val (train_epoch c a e s) = best_val s \<or>
   (flt (best_val (train_epoch c a e s)) (best_val s) \<and>
    epoch_val_loss c a e s = Inr (best_val (train_epoch c a e s)))"
proof (cases "train_one_epoch c e (params s) (train_data a) (batch_size a) (grad_clip a)
             (log_interval a) (trainer_lr s)")
  case (Inl err)
  then show ?thesis by (simp add: train_epoch_def raise_def)
next
  case t: (Inr p')
  show ?thesis
  proof (cases "evaluate c p' (val_data a) (batch_size a)")
    case (Inl err)
    then show ?thesis using t by (simp add: train_epoch_def raise_def emit_def)
  next
    case v: (Inr v)
    have ev: "epoch_val_loss c a e s = Inr v"
      by (simp add: epoch_val_loss_def t v)
    show ?thesis
    proof (cases "math_exp v")
      case (Inl err)
      then show ?thesis using t v by (simp add: train_epoch_def raise_def emit_def)
    next
      case x: (Inr ppl)
      show ?thesis
      proof (cases "flt v (best_val s)")
        case True
        then show ?thesis
          unfolding train_epoch_improved [OF t v x True] using ev by simp
      next
        case False
        show ?thesis unfolding train_epoch_not_improved [OF t v x False] by simp
      qed
    qed
  qed
qed

lemma fle_trans: "a = b \<or> flt a b \<Longrightarrow> b = c \<or> flt b c \<Longrightarrow> a = c \<or> flt a c"
  using flt_trans by blast

lemma boundaries_best:
  "j < length (boundaries c a es s) \<Longrightarrow> i \<le> j \<Longrightarrow>
     best_val (boundaries c a es s ! j) = best_val (boundaries c a es s ! i) \<or>
     flt (best_val (boundaries c a es s ! j)) (best_val (boundaries c a es s ! i))"
proof (induction j)
  case 0
  then show ?case by simp
next
  case (Suc j)
  let ?B = "boundaries c a es s"
  show ?case
  proof (cases "i = Suc j")
    case True
    then show ?thesis by simp
  next
    case False
    with Suc.prems have ij: "i \<le> j" and j: "j < length ?B" by simp_all
    from boundaries_step [OF Suc.prems(1)]
    have st: "?B ! Suc j = train_epoch c a (es ! j) (?B ! j)" by blast
    have "best_val (?B ! Suc j) = best_val (?B ! j) \<or> flt (best_val (?B ! Suc j)) (best_val (?B ! j))"
      unfolding st using train_epoch_best [of c a "es ! j" "?B ! j"] by blast
    from fle_trans [OF this Suc.IH [OF j ij]] show ?thesis .
  qed
qed

lemma train_loop_last:
  "train_loop c a es s = last (boundaries c a es s) \<or>
   (\<exists>e. train_loop c a es s = train_epoch c a e (last (boundaries c a es s)))"
proof (induction es arbitrary: s)
  case Nil
  show ?case by simp
next
  case (Cons e es)
  show ?case
  proof (cases "raised (train_epoch c a e s) = None")
    case True
    have ne: "boundaries c a es (train_epoch c a e s) \<noteq> []"
      by (cases es) simp_all
    show ?thesis using Cons.IH [of "train_epoch c a e s"] True ne by (simp add: Let_def)
  next
    case False
    then show ?thesis by (auto simp: Let_def)
  qed
qed

lemma boundaries_nonempty: "boundaries c a es s \<noteq> []"
  by (cases es) simp_all

lemma train_loop_best:
  assumes "j < length (boundaries c a es s)"
  shows "best_val (train_loop c a es s) = best_val (boundaries c a es s ! j) \<or>
         flt (best_val (train_loop c a es s)) (best_val (boundaries c a es s ! j))"
proof -
  let ?B = "boundaries c a es s"
  let ?n = "length ?B - 1"
  have n: "?n < length ?B" "j \<le> ?n" using assms by simp_all
  have l: "last ?B = ?B ! ?n"
    by (simp add: last_conv_nth boundaries_nonempty)
  have 1: "best_val (last ?B) = best_val (?B ! j) \<or> flt (best_val (last ?B)) (best_val (?B ! j))"
    unfolding l by (rule boundaries_best [OF n])
  have 2: "best_val (train_loop c a es s) = best_val (last ?B) \<or>
           flt (best_val (train_loop c a es s)) (best_val (last ?B))"
  proof -
    from train_loop_last [of c a es s] show ?thesis
    proof
      assume "train_loop c a es s = last ?B"
      then show ?thesis by simp
    next
      assume "\<exists>e. train_loop c a es s = train_epoch c a e (last ?B)"
      then obtain e where e: "train_loop c a es s = train_epoch c a e (last ?B)" ..
      show ?thesis unfolding e using train_epoch_best [of c a e "last ?B"] by blast
    qed
  qed
  from fle_trans [OF 2 1] show ?thesis .
qed

text \<open>
  Claim C3. Along the epoch boundaries of a run the stored best validation loss never
  increases: at a later boundary it is the same float or a strictly smaller one; from one
  boundary to the next it stays the same or is replaced by the validation loss of that
  epoch, which is then strictly smaller. The state the run ends in, also when an epoch
  raised, is below every boundary in the same sense.
\<close>

theorem best_val_non_increasing:
  assumes "i \<le> j" and "j < length (boundaries c a [0..<nat epochs] (train_init p rate lr0))"
  shows "let B = boundaries c a [0..<nat epochs] (train_init p rate lr0) in
           (best_val (B ! j) = best_val (B ! i) \<or> flt (best_val (B ! j)) (best_val (B ! i))) \<and>
           (j = Suc i \<longrightarrow>
              best_val (B ! j) = best_val (B ! i) \<or>
              (flt (best_val (B ! j)) (best_val (B ! i)) \<and>
               epoch_val_loss c a i (B ! i) = Inr (best_val (B ! j)))) \<and>
           (best_val (train c a p rate epochs lr0) = best_val (B ! j) \<or>
            flt (best_val (train c a p rate epochs lr0)) (best_val (B ! j)))"
proof -
  let ?B = "boundaries c a [0..<nat epochs] (train_init p rate lr0)"
  have 1: "best_val (?B ! j) = best_val (?B ! i) \<or> flt (best_val (?B ! j)) (best_val (?B ! i))"
    by (rule boundaries_best [OF assms(2,1)])
  have 2: "best_val (?B ! j) = best_val (?B ! i) \<or>
              (flt (best_val (?B ! j)) (best_val (?B ! i)) \<and>
               epoch_val_loss c a i (?B ! i) = Inr (best_val (?B ! j)))" if "j = Suc i"
  proof -
    from assms(2) that have s: "Suc i < length ?B" by simp
    from boundaries_step [OF s]
    have i: "i < length [0..<nat epochs]"
      and st: "?B ! Suc i = train_epoch c a ([0..<nat epochs] ! i) (?B ! i)"
      by blast+
    from i have e: "[0..<nat epochs] ! i = i" by simp
    show ?thesis
      unfolding that st e by (rule train_epoch_best)
  qed
  have 3: "best_val (train c a p rate epochs lr0) = best_val (?B ! j) \<or>
            flt (best_val (train c a p rate epochs lr0)) (best_val (?B ! j))"
    unfolding train_def by (rule train_loop_best [OF assms(2)])
  from 1 2 3 show ?thesis unfolding Let_def by blast
qed

theorem best_val_non_increasing_witness:
  "best_val (boundaries toy toy_args [0..<nat 3]
      (train_init [NaN, Finite 5.9, Finite 5.9, Finite 5.2] 20 20) ! 1) = Finite 5.9 \<and>
   best_val (boundaries toy toy_args [0..<nat 3]
      (train_init [NaN, Finite 5.9, Finite 5.9, Finite 5.2] 20 20) ! 0) = PosInf \<and>
   flt (Finite 5.9) PosInf \<and>
   epoch_val_loss toy toy_args 0 (boundaries toy toy_args [0..<nat 3]
      (train_init [NaN, Finite 5.9, Finite 5.9, Finite 5.2] 20 20) ! 0) = Inr (Finite 5.9) \<and>
   best_val (train toy toy_args [NaN, Finite 5.9, Finite 5.9, Finite 5.2] 20 3 20) = Finite 5.2"
proof -
  have h: "1 < length (boundaries toy toy_args [0..<nat 3]
         (train_init [NaN, Finite 5.9, Finite 5.9, Finite 5.2] 20 20))"
    by (simp add: toy_simps)
  have l: "(0::nat) \<le> 1" by simp
  from best_val_non_increasing [OF l h] show ?thesis
    by (simp add: toy_simps train_def)
qed








section \<open>Properties of the hidden state\<close>

lemma epoch_loop_trace:
  "length (fed (epoch_loop c ad clip rate s (enumerate k bs))) = length (fed s) + length bs \<and>
   (\<forall>h \<in> set (drop (length (fed s)) (fed (epoch_loop c ad clip rate s (enumerate k bs)))).
       history h = []) \<and>
   take (length (fed s)) (fed (epoch_loop c ad clip rate s (enumerate k bs))) = fed s \<and>
   scopes (epoch_loop c ad clip rate s (enumerate k bs)) =
     scopes s @ map (\<lambda>i. [i]) [k..<k + length bs]"
proof (induction bs arbitrary: s k)
  case Nil
  show ?case by simp
next
  case (Cons b bs)
  let ?s1 = "train_batch c ad clip rate s (k, b)"
  let ?r = "epoch_loop c ad clip rate ?s1 (enumerate (Suc k) bs)"
  have f1: "fed ?s1 = fed s @ [detach (carried s)]"
    and s1: "scopes ?s1 = scopes s @ [[k]]"
    by (simp_all add: train_batch_def Let_def detach_def)
  from Cons.IH [of ?s1 "Suc k"]
  have len: "length (fed ?r) = length (fed ?s1) + length bs"
    and hist: "\<forall>h \<in> set (drop (length (fed ?s1)) (fed ?r)). history h = []"
    and pre: "take (length (fed ?s1)) (fed ?r) = fed ?s1"
    and sc: "scopes ?r = scopes ?s1 @ map (\<lambda>i. [i]) [Suc k..<Suc k + length bs]"
    by blast+
  have r: "epoch_loop c ad clip rate s (enumerate k (b # bs)) = ?r"
    by simp
  have "k < k + length (b # bs)" by simp
  from upt_conv_Cons [OF this]
  have up: "[k..<k + length (b # bs)] = k # [Suc k..<Suc k + length bs]"
    by simp
  have split: "fed ?r = fed ?s1 @ drop (length (fed ?s1)) (fed ?r)"
    using pre by (metis append_take_drop_id)
  have d: "drop (length (fed s)) (fed ?r) = detach (carried s) # drop (length (fed ?s1)) (fed ?r)"
    by (subst split) (simp add: f1)
  have t: "take (length (fed s)) (fed ?r) = fed s"
    by (subst split) (simp add: f1)
  show ?case
    unfolding r up using len hist sc t
    by (simp add: d f1 s1 detach_def)
qed

text \<open>
  Claim C2. In an epoch of training, at every batch the hidden state fed to the model
  has an empty computation history, whatever the batch before left in it, and the
  backward pass of batch \<open>i\<close> goes through the computation of batch \<open>i\<close> alone: no
  gradient crosses the boundary between two batches. Epoch number, parameters and
  learning rate are arbitrary, so this holds in every epoch.
\<close>

theorem hidden_detached_every_batch:
  "length (fed (run_epoch c ad p batches n clip rate)) = length batches \<and>
   (\<forall>h \<in> set (fed (run_epoch c ad p batches n clip rate)). history h = []) \<and>
   scopes (run_epoch c ad p batches n clip rate) = map (\<lambda>i. [i]) [0..<length batches] \<and>
   (batches \<noteq> [] \<longrightarrow> history (carried (run_epoch c ad p batches n clip rate)) \<noteq> [])"
proof -
  have 1: "history (carried (epoch_loop c ad clip rate s (enumerate k bs))) \<noteq> []"
    if "bs \<noteq> []" for s :: "'a epoch_state" and k bs
    using that
  proof (induction bs arbitrary: s k)
    case Nil
    then show ?case by simp
  next
    case (Cons b bs)
    show ?case
    proof (cases "bs = []")
      case True
      then show ?thesis by (simp add: train_batch_def Let_def)
    next
      case False
      from Cons.IH [OF False, of "train_batch c ad clip rate s (k, b)" "Suc k"]
      show ?thesis by simp
    qed
  qed
  from epoch_loop_trace [of c ad clip rate "epoch_init c n p" 0 batches] 1 [of batches "epoch_init c n p" 0]
  show ?thesis
    by (simp add: run_epoch_def epoch_init_def)
qed

theorem hidden_detached_every_batch_witness:
  "fed (run_epoch toy toy_autodiff [Finite 3, Finite 2, Finite 1]
          [([[1, 2]], [[2, 3]]), ([[3, 4]], [[4, 5]])] 1 0.25 20) =
     [\<lparr>arrays = [[0, 0], [0, 0]], history = []\<rparr>, \<lparr>arrays = [[1, 1], [1, 1]], history = []\<rparr>] \<and>
   scopes (run_epoch toy toy_autodiff [Finite 3, Finite 2, Finite 1]
          [([[1, 2]], [[2, 3]]), ([[3, 4]], [[4, 5]])] 1 0.25 20) = [[0], [1]] \<and>
   carried (run_epoch toy toy_autodiff [Finite 3, Finite 2, Finite 1]
          [([[1, 2]], [[2, 3]]), ([[3, 4]], [[4, 5]])] 1 0.25 20) =
     \<lparr>arrays = [[2, 2], [2, 2]], history = [1]\<rparr>"
  using hidden_detached_every_batch [of toy toy_autodiff "[Finite 3, Finite 2, Finite 1]"
          "[([[1, 2]], [[2, 3]]), ([[3, 4]], [[4, 5]])]" 1 "0.25" 20]
  by (simp add: run_epoch_def epoch_init_def train_batch_def detach_def toy_def toy_autodiff_def
        begin_state_def zeros_def enumerate_eq_zip Let_def upt_rec numeral_2_eq_2)

text \<open>
  Claim C5. \<^verbatim>\<open>evaluate\<close> starts its loop, and so processes its first batch, from the
  hidden state \<^verbatim>\<open>begin_state\<close> makes with \<^verbatim>\<open>mx.nd.zeros\<close>, and an epoch of
  training starts from the same state, with an empty history, and feeds it to the model
  at its first batch; every entry of every array of that state is zero.
\<close>

theorem hidden_reset_at_start:
  "hidden (evaluate_init c n) = begin_state c n zeros \<and>
   evaluate c p (b # bs) n =
     (let s = evaluate_loop c p
                (evaluate_batch c p \<lparr>total_L = Finite 0, ntotal = 0, hidden = begin_state c n zeros\<rparr> b) bs
      in if ntotal s = 0 then Inl ZeroDivisionError else Inr (fdiv (total_L s) (ntotal s))) \<and>
   carried (epoch_init c n p) = \<lparr>arrays = begin_state c n zeros, history = []\<rparr> \<and>
   hd (fed (run_epoch c ad p (b # bs) n clip rate)) = \<lparr>arrays = begin_state c n zeros, history = []\<rparr> \<and>
   (\<forall>a \<in> set (begin_state c n zeros). \<forall>x \<in> set a. x = 0)"
proof -
  let ?s1 = "train_batch c ad clip rate (epoch_init c n p) (0, b)"
  have f1: "fed ?s1 = [\<lparr>arrays = begin_state c n zeros, history = []\<rparr>]"
    by (simp add: train_batch_def epoch_init_def detach_def Let_def)
  from epoch_loop_trace [of c ad clip rate ?s1 "Suc 0" bs]
  have "take (length (fed ?s1)) (fed (epoch_loop c ad clip rate ?s1 (enumerate (Suc 0) bs))) = fed ?s1"
    by blast
  then have "hd (fed (epoch_loop c ad clip rate ?s1 (enumerate (Suc 0) bs))) =
               \<lparr>arrays = begin_state c n zeros, history = []\<rparr>"
    unfolding f1 by (cases "fed (epoch_loop c ad clip rate ?s1 (enumerate (Suc 0) bs))") simp_all
  then have 4: "hd (fed (run_epoch c ad p (b # bs) n clip rate)) =
                  \<lparr>arrays = begin_state c n zeros, history = []\<rparr>"
    by (simp add: run_epoch_def)
  have 5: "\<forall>a \<in> set (begin_state c n zeros). \<forall>x \<in> set a. x = 0"
    by (auto simp: begin_state_def zeros_def)
  show ?thesis
    using 4 5 by (simp add: evaluate_init_def evaluate_def epoch_init_def)
qed

theorem hidden_reset_at_start_witness:
  "hidden (evaluate_init toy 1) = [[0, 0], [0, 0]] \<and>
   hd (fed (run_epoch toy toy_autodiff [Finite 3, Finite 2, Finite 1]
          [([[1, 2]], [[2, 3]]), ([[3, 4]], [[4, 5]])] 1 0.25 20)) =
     \<lparr>arrays = [[0, 0], [0, 0]], history = []\<rparr>"
  using hidden_reset_at_start [of toy 1 "[Finite 3, Finite 2, Finite 1]" "([[1, 2]], [[2, 3]])"
          "[([[3, 4]], [[4, 5]])]" toy_autodiff "0.25" 20]
  by (simp add: toy_def begin_state_def zeros_def numeral_2_eq_2)

section \<open>Properties of the batchifier and the token count\<close>

lemma length_corpus_rows: "length (corpus_rows bsz corpus) = length corpus div bsz"
  by (simp add: corpus_rows_def Let_def)

lemma corpus_rows_width: "row \<in> set (corpus_rows bsz corpus) \<Longrightarrow> length row = bsz"
  by (auto simp: corpus_rows_def Let_def)

lemma full_window_iff:
  assumes "0 < bptt"
  shows "full_window bptt (bptt_window bptt rows i) \<longleftrightarrow> i < (length rows - 1) div bptt"
proof -
  have "full_window bptt (bptt_window bptt rows i) \<longleftrightarrow> i * bptt + bptt + 1 \<le> length rows"
    using assms by (auto simp: full_window_def bptt_window_def min_def)
  also have "\<dots> \<longleftrightarrow> Suc i * bptt \<le> length rows - 1"
    using assms by (cases "length rows") (auto simp: algebra_simps)
  also have "\<dots> \<longleftrightarrow> Suc i \<le> (length rows - 1) div bptt"
    using assms by (simp only: less_eq_div_iff_mult_less_eq)
  finally show ?thesis by auto
qed

lemma filter_upt_below:
  assumes "m \<le> n" and "\<And>i. i < n \<Longrightarrow> Q i \<longleftrightarrow> i < m"
  shows "filter Q [0..<n] = [0..<m]"
proof -
  from assms(1) have "[0..<n] = [0..<m] @ [m..<n]"
    by (metis le_add_diff_inverse upt_add_eq_append zero_le)
  moreover have "filter Q [0..<m] = [0..<m]"
    using assms by (auto simp: filter_id_conv)
  moreover have "filter Q [m..<n] = []"
    using assms by (auto simp: filter_empty_conv)
  ultimately show ?thesis by simp
qed

lemma bptt_batchify_windows:
  assumes "0 < bptt"
  shows "bptt_batchify bptt bsz corpus =
           map (bptt_window bptt (corpus_rows bsz corpus))
             [0..<(length corpus div bsz - 1) div bptt]"
proof -
  let ?rows = "corpus_rows bsz corpus"
  let ?m = "(length ?rows - 1) div bptt"
  have "?m \<le> length ?rows - 1" by (rule div_le_dividend)
  also have "\<dots> \<le> length ?rows" by (rule diff_le_self)
  finally have m: "?m \<le> length ?rows" .
  have "filter (full_window bptt \<circ> bptt_window bptt ?rows) [0..<length ?rows] = [0..<?m]"
    by (rule filter_upt_below [OF m]) (simp add: full_window_iff [OF assms])
  then show ?thesis
    by (simp add: bptt_batchify_def Let_def filter_map length_corpus_rows)
qed

lemma length_bptt_batchify:
  "0 < bptt \<Longrightarrow> length (bptt_batchify bptt bsz corpus) = (length corpus div bsz - 1) div bptt"
  by (simp add: bptt_batchify_windows)

lemma bptt_batchify_shape:
  assumes "b \<in> set (bptt_batchify bptt bsz corpus)"
  shows "length (fst b) = bptt \<and> length (snd b) = bptt \<and>
         (\<forall>row \<in> set (fst b). length row = bsz) \<and> (\<forall>row \<in> set (snd b). length row = bsz)"
proof -
  let ?rows = "corpus_rows bsz corpus"
  from assms obtain i where full: "full_window bptt b" and b: "b = bptt_window bptt ?rows i"
    by (auto simp: bptt_batchify_def Let_def)
  have "set (fst b) \<subseteq> set ?rows" "set (snd b) \<subseteq> set ?rows"
    unfolding b bptt_window_def
    by (auto dest: in_set_takeD in_set_dropD)
  then show ?thesis
    using full corpus_rows_width [of _ bsz corpus] by (auto simp: full_window_def)
qed

lemma length_concat_rows:
  "\<forall>row \<in> set rows. length row = k \<Longrightarrow> length (concat rows) = length rows * k"
  by (induction rows) simp_all

lemma length_batch_losses:
  assumes "\<forall>out target. length (loss c out target) = length target"
    and "\<forall>b \<in> set ds. length (concat (snd b)) = k"
  shows "length (concat (batch_losses c p h ds)) = k * length ds"
  using assms(2) by (induction ds arbitrary: h) (simp_all add: assms(1))

text \<open>
  Claim C7. For a segment made by the batchifier, and a loss with one entry per target
  token, the token count that \<^verbatim>\<open>evaluate\<close> divides by is batch_size times bptt times
  the number of batches of the segment: every batch is a full window.
\<close>

theorem ntotal_full_batches:
  assumes "\<forall>out target. length (loss c out target) = length target"
  shows "ntotal (evaluate_loop c p (evaluate_init c n) (bptt_batchify bptt bsz corpus)) =
           bsz * bptt * length (bptt_batchify bptt bsz corpus)"
proof -
  let ?ds = "bptt_batchify bptt bsz corpus"
  have full: "\<forall>b \<in> set ?ds. length (concat (snd b)) = bptt * bsz"
  proof
    fix b assume "b \<in> set ?ds"
    from bptt_batchify_shape [OF this]
    have "length (snd b) = bptt" and "\<forall>row \<in> set (snd b). length row = bsz"
      by blast+
    then show "length (concat (snd b)) = bptt * bsz"
      using length_concat_rows [of "snd b" bsz] by simp
  qed
  from length_batch_losses [OF assms full]
  show ?thesis
    by (simp add: evaluate_loop_ntotal evaluate_init_def mult.commute)
qed

lemma toy_segment:
  "bptt_batchify 2 2 [1, 2, 3, 4, 5, 6, 7, 8, 9, 10] =
     [([[1, 6], [2, 7]], [[2, 7], [3, 8]]), ([[3, 8], [4, 9]], [[4, 9], [5, 10]])]"
  by code_simp

theorem ntotal_full_batches_witness:
  "ntotal (evaluate_loop toy [Finite 3] (evaluate_init toy 2)
      (bptt_batchify 2 2 [1, 2, 3, 4, 5, 6, 7, 8, 9, 10])) = 8 \<and>
   length (bptt_batchify 2 2 [1, 2, 3, 4, 5, 6, 7, 8, 9, 10]) = 2"
proof -
  have 1: "\<forall>out target. length (loss toy out target) = length target"
    by (simp add: toy_def)
  from ntotal_full_batches [OF 1, of "[Finite 3]" 2 2 2 "[1, 2, 3, 4, 5, 6, 7, 8, 9, 10]"]
  show ?thesis unfolding toy_segment by simp
qed

lemma div_pred:
  fixes d k :: nat
  assumes "0 < d" and "\<not> d dvd k"
  shows "(k - 1) div d = k div d"
proof (rule div_nat_eqI)
  have k: "k = d * (k div d) + k mod d" by simp
  from assms(2) have r: "0 < k mod d" by (simp add: dvd_eq_mod_eq_0)
  from assms(1) have r': "k mod d < d" by simp
  show "d * (k div d) \<le> k - 1" using k r by linarith
  have "k < d * (k div d) + d" using k r' by linarith
  then show "k - 1 < d * Suc (k div d)" by simp
qed

text \<open>
  Claim C8, amended. With batch_size 64 and bptt 35 a segment of \<open>T\<close> tokens gives
  \<open>(T div 64 - 1) div 35\<close> batches: the target of a window is its input one token
  later, so a window needs 36 tokens of each stream. This is \<open>(T div 64) div 35\<close>
  whenever the stream length \<open>T div 64\<close> is not a multiple of 35.
\<close>

theorem batches_per_epoch:
  "length (bptt_batchify 35 64 corpus) = (length corpus div 64 - 1) div 35 \<and>
   (\<not> 35 dvd length corpus div 64 \<longrightarrow>
      length (bptt_batchify 35 64 corpus) = (length corpus div 64) div 35)"
proof -
  have 1: "length (bptt_batchify 35 64 corpus) = (length corpus div 64 - 1) div 35"
    by (simp add: length_bptt_batchify)
  have 2: "(length corpus div 64 - 1) div 35 = (length corpus div 64) div 35"
    if "\<not> 35 dvd length corpus div 64"
    by (rule div_pred [OF _ that]) simp
  show ?thesis
  proof (intro conjI impI)
    show "length (bptt_batchify 35 64 corpus) = (length corpus div 64 - 1) div 35"
      by (rule 1)
  next
    assume "\<not> 35 dvd length corpus div 64"
    from 1 2 [OF this]
    show "length (bptt_batchify 35 64 corpus) = (length corpus div 64) div 35"
      by (rule trans)
  qed
qed

theorem batches_per_epoch_witness:
  "length (bptt_batchify 35 64 (replicate 2304 0)) = 1 \<and> (2304 div 64) div 35 = (1::nat)"
  using batches_per_epoch [of "replicate 2304 0"]
  unfolding length_replicate by simp

text \<open>
  A segment of 2240 tokens: 64 streams of 35 tokens. The one window has its 35 input
  rows but only 34 target rows, so it is discarded, where the claim counts one batch.
\<close>

theorem batches_per_epoch_counterexample:
  "length (replicate 2240 (0::nat)) = 2240 \<and>
   length (bptt_batchify 35 64 (replicate 2240 0)) = 0 \<and>
   (2240 div 64) div 35 = (1::nat)"
proof -
  have "length (bptt_batchify 35 64 (replicate 2240 0)) =
          (length (replicate 2240 (0::nat)) div 64 - 1) div 35"
    by (rule length_bptt_batchify) simp
  then have "length (bptt_batchify 35 64 (replicate 2240 0)) = 0"
    unfolding length_replicate by simp
  then show ?thesis
    unfolding length_replicate by simp
qed


end
